theory Spec2Isabelle
  imports Main "HOL-Library.Word" "HOL-Library.Log_Nat"
begin

unbundle bit_operations_syntax

section \<open>Machine types\<close>

type_synonym u8 = "8 word"
type_synonym i8 = "8 word"
type_synonym i16 = "16 word"
type_synonym u32 = "32 word"
type_synonym i32 = "32 word"
type_synonym i64 = "64 word"

text \<open>
  Signed fields (\<^verbatim>\<open>std::int8_t\<close>, \<^verbatim>\<open>std::int16_t\<close>, \<^verbatim>\<open>std::int32_t\<close>,
  \<^verbatim>\<open>std::int64_t\<close>) are words read with \<open>sint\<close>; unsigned ones are read with
  \<open>uint\<close> or \<open>unat\<close>. \<^verbatim>\<open>int\<close> and \<^verbatim>\<open>unsigned\<close> are 32 bits wide.
\<close>

section \<open>Single-precision floating point\<close>

text \<open>
  \<^verbatim>\<open>hal::rpm\<close> and \<^verbatim>\<open>hal::degrees\<close> are \<^verbatim>\<open>float\<close>. A finite binary32 value is
  kept as the rational it denotes; the two infinities and NaN are separate values
  (\<open>Inf True\<close> is the negative one). The sign of zero is not kept: no operation of the
  driver can tell the two zeros apart. Every arithmetic operation computes the exact
  rational result and rounds it to the nearest binary32 value, ties to even
  (24 significant bits, exponents from -126 to 127, gradual underflow).
\<close>

datatype float = Finite rat | Inf bool | NaN

definition rne :: "rat \<Rightarrow> int" where
  "rne x = (let f = \<lfloor>x\<rfloor>; r = x - of_int f in
     if r < 1 / 2 then f else if 1 / 2 < r then f + 1 else if even f then f else f + 1)"

definition pow2 :: "int \<Rightarrow> rat" where
  "pow2 e = (if 0 \<le> e then 2 ^ nat e else 1 / 2 ^ nat (- e))"

text \<open>\<open>expo x\<close> is the binary exponent of a non-zero \<open>x\<close>: \<open>2 ^ expo x \<le> \<bar>x\<bar> < 2 ^ (expo x + 1)\<close>.\<close>

definition expo :: "rat \<Rightarrow> int" where
  "expo x = (if 1 \<le> \<bar>x\<bar> then bitlen \<lfloor>\<bar>x\<bar>\<rfloor> - 1 else - bitlen (\<lceil>1 / \<bar>x\<bar>\<rceil> - 1))"

definition ulp :: "rat \<Rightarrow> rat" where
  "ulp x = pow2 (max (expo x) (- 126) - 23)"

definition round32 :: "rat \<Rightarrow> float" where
  "round32 x = (if x = 0 then Finite 0 else
     let q = ulp x; y = of_int (rne (x / q)) * q in
     if 2 ^ 128 \<le> \<bar>y\<bar> then Inf (y < 0) else Finite y)"

fun fmul :: "float \<Rightarrow> float \<Rightarrow> float" where
  "fmul (Finite a) (Finite b) = round32 (a * b)"
| "fmul (Finite a) (Inf s) = (if a = 0 then NaN else Inf (s \<noteq> (a < 0)))"
| "fmul (Inf s) (Finite b) = (if b = 0 then NaN else Inf (s \<noteq> (b < 0)))"
| "fmul (Inf s) (Inf t) = Inf (s \<noteq> t)"
| "fmul NaN _ = NaN"
| "fmul _ NaN = NaN"

fun fdiv :: "float \<Rightarrow> float \<Rightarrow> float" where
  "fdiv (Finite a) (Finite b) =
     (if b = 0 then (if a = 0 then NaN else Inf (a < 0)) else round32 (a / b))"
| "fdiv (Finite a) (Inf s) = Finite 0"
| "fdiv (Inf s) (Finite b) = Inf (s \<noteq> (b < 0))"
| "fdiv (Inf s) (Inf t) = NaN"
| "fdiv NaN _ = NaN"
| "fdiv _ NaN = NaN"

section \<open>Errors and results\<close>

text \<open>
  The exceptions the driver can let escape: \<^verbatim>\<open>hal::timed_out\<close> from the timeout token,
  the transport's \<^verbatim>\<open>hal::io_error\<close>, and the bounds error of \<^verbatim>\<open>bounds_check\<close>.
  A call either returns, raises, or is still polling when the scripted environment
  ends (\<open>Pending\<close>).
\<close>

datatype error = timed_out | io_error | bounds_error

datatype 'a result = Returned 'a | Raised error | Pending

section \<open>CAN frames\<close>

text \<open>\<^verbatim>\<open>std::array<hal::byte, 8>\<close>: eight bytes, whatever the frame's length field says.\<close>

datatype payload_t =
  Payload (p0: u8) (p1: u8) (p2: u8) (p3: u8) (p4: u8) (p5: u8) (p6: u8) (p7: u8)

record can_message =
  id_msg :: u32
  length_msg :: u8
  payload :: payload_t

text \<open>
  Modelled from the spec: \<^verbatim>\<open>message(id, payload)\<close> of \<^verbatim>\<open>common.hpp\<close>, which is not
  among the sources. The spec has every command travel as a fixed 8-byte frame
  addressed to the motor's device ID.
\<close>

definition message :: "u32 \<Rightarrow> payload_t \<Rightarrow> can_message" where
  "message p_id p_payload = \<lparr>id_msg = p_id, length_msg = 8, payload = p_payload\<rparr>"

section \<open>Command bytes\<close>

datatype read = multi_turns_angle | status_1_and_error_flags | status_2

datatype actuate = speed | position_2

datatype system = clear_error_flag | off | stop | running

text \<open>\<^verbatim>\<open>hal::value\<close> on each enumeration: the underlying byte.\<close>

fun value_read :: "read \<Rightarrow> u8" where
  "value_read multi_turns_angle = 0x92"
| "value_read status_1_and_error_flags = 0x9A"
| "value_read status_2 = 0x9C"

fun value_actuate :: "actuate \<Rightarrow> u8" where
  "value_actuate speed = 0xA2"
| "value_actuate position_2 = 0xA4"

fun value_system :: "system \<Rightarrow> u8" where
  "value_system clear_error_flag = 0x9B"
| "value_system off = 0x80"
| "value_system stop = 0x81"
| "value_system running = 0x88"

section \<open>Constants of \<^verbatim>\<open>drc_constants.hpp\<close>\<close>

text \<open>
  The header declaring \<^verbatim>\<open>dps_per_lsb_speed\<close>, \<^verbatim>\<open>dps_per_lsb_angle\<close> and
  \<^verbatim>\<open>over_temperature_protection_tripped_mask\<close> is not among the sources, so the three
  constants are parameters of the model: every function that reads one takes the record.
\<close>

record drc_constants =
  dps_per_lsb_speed :: float
  dps_per_lsb_angle :: float
  over_temperature_protection_tripped_mask :: u32

section \<open>Feedback\<close>

record feedback_t =
  message_number :: u32
  raw_multi_turn_angle :: i64
  raw_current :: i16
  raw_speed :: i16
  raw_volts :: i16
  encoder :: i16
  raw_motor_temperature :: i8
  raw_error_state :: u8

definition feedback_init :: feedback_t where
  "feedback_init = \<lparr>message_number = 0, raw_multi_turn_angle = 0, raw_current = 0,
     raw_speed = 0, raw_volts = 0, encoder = 0, raw_motor_temperature = 0,
     raw_error_state = 0\<rparr>"

text \<open>
  Both accessors return \<^verbatim>\<open>raw_error_state & over_temperature_protection_tripped_mask\<close>
  converted to \<^verbatim>\<open>bool\<close>; the byte is promoted before the conjunction.
\<close>

definition over_voltage_protection_tripped :: "drc_constants \<Rightarrow> feedback_t \<Rightarrow> bool" where
  "over_voltage_protection_tripped K f =
     ((ucast (raw_error_state f) AND over_temperature_protection_tripped_mask K) \<noteq> 0)"

definition over_temperature_protection_tripped :: "drc_constants \<Rightarrow> feedback_t \<Rightarrow> bool" where
  "over_temperature_protection_tripped K f =
     ((ucast (raw_error_state f) AND over_temperature_protection_tripped_mask K) \<noteq> 0)"

text \<open>
  \<^verbatim>\<open>feedback_t::angle()\<close>: the raw multi-turn angle, which the header documents as
  counting 0.01 degrees per LSB, converted to \<^verbatim>\<open>float\<close> and multiplied by
  \<^verbatim>\<open>dps_per_lsb_speed\<close>.
\<close>

definition angle :: "drc_constants \<Rightarrow> feedback_t \<Rightarrow> float" where
  "angle K f = fmul (round32 (of_int (sint (raw_multi_turn_angle f)))) (dps_per_lsb_speed K)"

section \<open>The driver object\<close>

text \<open>
  The clock, the router and the route item are references to collaborators; they live
  in the environment below. \<open>m_max_response_time\<close> is a duration in the clock's unit.
\<close>

record rmd_drc =
  m_feedback :: feedback_t
  m_gear_ratio :: float
  m_device_id :: u32
  m_max_response_time :: nat

definition feedback :: "rmd_drc \<Rightarrow> feedback_t" where
  "feedback d = m_feedback d"

section \<open>Inbound frames\<close>

text \<open>
  \<^verbatim>\<open>hal::bit_value<T>::insert<mask>(v)\<close> of libhal-util clears the field of the mask
  and ors in \<open>v\<close> shifted to the field's position and cut to the field. A byte mask
  \<^verbatim>\<open>byte_m<i>\<close> is the field of width 8 at position \<open>8 * i\<close>. The accumulator of
  \<^verbatim>\<open>hal::bit_value(0U)\<close> has the type of \<^verbatim>\<open>0U\<close>: 32 bits. A shift by the width of
  the type or more has no defined result in the source language; here it gives 0.
\<close>

definition bit_mask_value :: "nat \<Rightarrow> nat \<Rightarrow> 'a::len word" where
  "bit_mask_value position width = push_bit position (mask width)"

definition byte_m :: "nat \<Rightarrow> nat \<times> nat" where
  "byte_m i = (8 * i, 8)"

definition insert_field :: "nat \<times> nat \<Rightarrow> u8 \<Rightarrow> 'a::len word \<Rightarrow> 'a word" where
  "insert_field field v m =
     (let position = fst field; width = snd field;
          shifted_field = push_bit position (ucast v);
          new_value = shifted_field AND bit_mask_value position width
      in (m AND NOT (bit_mask_value position width)) OR new_value)"

definition multi_turn_of :: "payload_t \<Rightarrow> i64" where
  "multi_turn_of data =
     ucast (insert_field (byte_m 6) (p7 data)
           (insert_field (byte_m 5) (p6 data)
           (insert_field (byte_m 4) (p5 data)
           (insert_field (byte_m 3) (p4 data)
           (insert_field (byte_m 2) (p3 data)
           (insert_field (byte_m 1) (p2 data)
           (insert_field (byte_m 0) (p1 data) (0 :: u32))))))))"

text \<open>
  \<^verbatim>\<open>static_cast<std::int16_t>((hi << 8) | lo << 0)\<close>: both bytes are promoted to
  \<^verbatim>\<open>int\<close>, and the cast keeps the low 16 bits.
\<close>

definition int16_of :: "u8 \<Rightarrow> u8 \<Rightarrow> i16" where
  "int16_of hi lo = ucast (push_bit 8 (ucast hi :: i32) OR push_bit 0 (ucast lo :: i32))"

text \<open>\<^verbatim>\<open>rmd_drc::operator()\<close>, the handler the router calls with a received frame.\<close>

definition operator_call :: "rmd_drc \<Rightarrow> can_message \<Rightarrow> rmd_drc" where
  "operator_call d p_message =
     (let fb = (m_feedback d)\<lparr>message_number := message_number (m_feedback d) + 1\<rparr>;
          data = payload p_message
      in if length_msg p_message \<noteq> 8 \<or> id_msg p_message \<noteq> m_device_id d
         then d\<lparr>m_feedback := fb\<rparr>
         else if p0 data = value_read status_2 \<or> p0 data = value_actuate speed
                 \<or> p0 data = value_actuate position_2
         then d\<lparr>m_feedback := fb\<lparr>raw_motor_temperature := p1 data,
                                    raw_current := int16_of (p3 data) (p2 data),
                                    raw_speed := int16_of (p5 data) (p4 data),
                                    encoder := int16_of (p7 data) (p6 data)\<rparr>\<rparr>
         else if p0 data = value_read status_1_and_error_flags
         then d\<lparr>m_feedback := fb\<lparr>raw_motor_temperature := p1 data,
                                    raw_volts := int16_of (p4 data) (p3 data),
                                    raw_error_state := p7 data\<rparr>\<rparr>
         else if p0 data = value_read multi_turns_angle
         then d\<lparr>m_feedback := fb\<lparr>raw_multi_turn_angle := multi_turn_of data\<rparr>\<rparr>
         else d\<lparr>m_feedback := fb\<rparr>)"

section \<open>The environment: transport, clock and inbound traffic\<close>

text \<open>
  The driver talks to three collaborators that are outside the repository: the CAN
  transceiver behind the router, the steady clock, and the router's dispatch of received
  frames to the registered handler. They are scripted:
  \<^item> \<open>tx_log\<close> holds every frame handed to \<^verbatim>\<open>bus().send\<close>, oldest first, whether or
    not the call then failed (what the test double's \<^verbatim>\<open>spy_send\<close> records);
  \<^item> \<open>tx_faults\<close> says for each coming call of \<^verbatim>\<open>bus().send\<close> whether it throws
    \<^verbatim>\<open>hal::io_error\<close>; past the end of the script no call fails;
  \<^item> \<open>polls\<close> has one entry per coming iteration of the polling loop of \<open>send\<close>: the
    frames the router delivers to the handler before the loop reads the counter, and
    the time elapsed since the timeout token was made, as the token reads it when the
    loop polls it.
\<close>

record world =
  tx_log :: "can_message list"
  tx_faults :: "bool list"
  polls :: "(can_message list \<times> nat) list"

definition tx_fails :: "world \<Rightarrow> bool" where
  "tx_fails w = (case tx_faults w of [] \<Rightarrow> False | fault # rest \<Rightarrow> fault)"

definition bus_send :: "world \<Rightarrow> can_message \<Rightarrow> error option \<times> world" where
  "bus_send w m =
     (if tx_fails w then Some io_error else None,
      w\<lparr>tx_log := tx_log w @ [m], tx_faults := tl (tx_faults w)\<rparr>)"

text \<open>
  Modelled from the spec: the timeout token of \<^verbatim>\<open>hal::create_timeout\<close> (libhal-util),
  made from the configured maximum response duration and the steady clock. Polled, it
  fails with a timeout error if the duration has elapsed.
\<close>

definition timeout_expired :: "nat \<Rightarrow> nat \<Rightarrow> bool" where
  "timeout_expired duration elapsed = (duration \<le> elapsed)"

section \<open>Sending a command and waiting for any reply\<close>

text \<open>
  The \<^verbatim>\<open>while (true)\<close> loop of \<^verbatim>\<open>rmd_drc::send\<close>. Each iteration consumes one entry
  of the script; when the script ends with the loop still polling the result is
  \<open>Pending\<close>.
\<close>

fun wait_loop ::
  "u32 \<Rightarrow> rmd_drc \<Rightarrow> (can_message list \<times> nat) list
     \<Rightarrow> unit result \<times> rmd_drc \<times> (can_message list \<times> nat) list" where
  "wait_loop original_message_number d [] = (Pending, d, [])"
| "wait_loop original_message_number d ((inbound, elapsed) # rest) =
     (let d' = foldl operator_call d inbound in
      if original_message_number \<noteq> message_number (feedback d')
      then (Returned (), d', rest)
      else if timeout_expired (m_max_response_time d') elapsed
      then (Raised timed_out, d', rest)
      else wait_loop original_message_number d' rest)"

definition send :: "rmd_drc \<Rightarrow> payload_t \<Rightarrow> world \<Rightarrow> unit result \<times> rmd_drc \<times> world" where
  "send d p_payload w =
     (let original_message_number = message_number (feedback d) in
      case bus_send w (message (m_device_id d) p_payload) of
        (Some e, w1) \<Rightarrow> (Raised e, d, w1)
      | (None, w1) \<Rightarrow>
          (case wait_loop original_message_number d (polls w1) of
             (r, d', rest) \<Rightarrow> (r, d', w1\<lparr>polls := rest\<rparr>)))"

section \<open>Commands\<close>

text \<open>
  Modelled from the spec: \<^verbatim>\<open>bounds_check<std::int32_t>\<close> of \<^verbatim>\<open>common.hpp\<close>, which is
  not among the sources. The spec has the value rounded to a 32-bit signed integer, and
  a bounds error if the result exceeds the 32-bit signed range.
\<close>

definition bounds_check :: "float \<Rightarrow> error + i32" where
  "bounds_check p_float =
     (case p_float of
        Finite q \<Rightarrow>
          (if - (2 ^ 31) \<le> round q \<and> round q \<le> 2 ^ 31 - 1
           then Inr (word_of_int (round q)) else Inl bounds_error)
      | Inf s \<Rightarrow> Inl bounds_error
      | NaN \<Rightarrow> Inl bounds_error)"

text \<open>
  The literals of the source: \<^verbatim>\<open>0.01f\<close>, and libhal's \<^verbatim>\<open>1.0_deg_per_sec\<close>, one degree
  per second expressed in \<^verbatim>\<open>hal::rpm\<close> (a sixth of a revolution per minute).
\<close>

definition deg_per_lsb :: float where
  "deg_per_lsb = round32 (1 / 100)"

definition deg_per_sec :: "rat \<Rightarrow> float" where
  "deg_per_sec x = round32 (x / 6)"

definition dps_per_rpm :: float where
  "dps_per_rpm = fdiv (Finite 1) (deg_per_sec 1)"

definition rpm_to_drc_speed :: "float \<Rightarrow> float \<Rightarrow> float \<Rightarrow> error + i32" where
  "rpm_to_drc_speed p_rpm p_gear_ratio p_dps_per_lsb =
     (let dps_float = fdiv (fmul (fmul p_rpm p_gear_ratio) dps_per_rpm) p_dps_per_lsb
      in bounds_check dps_float)"

text \<open>
  \<^verbatim>\<open>static_cast<hal::byte>((x >> n) & 0xFF)\<close> on a signed 32-bit \<open>x\<close>: the shift keeps
  the sign.
\<close>

definition byte_of :: "i32 \<Rightarrow> nat \<Rightarrow> u8" where
  "byte_of x n = ucast (signed_drop_bit n x AND 0xFF)"

definition velocity_control ::
  "drc_constants \<Rightarrow> rmd_drc \<Rightarrow> float \<Rightarrow> world \<Rightarrow> unit result \<times> rmd_drc \<times> world" where
  "velocity_control K d p_rpm w =
     (case rpm_to_drc_speed p_rpm (m_gear_ratio d) (dps_per_lsb_speed K) of
        Inl e \<Rightarrow> (Raised e, d, w)
      | Inr speed_data \<Rightarrow>
          send d (Payload (value_actuate speed) 0x00 0x00 0x00
                    (byte_of speed_data 0) (byte_of speed_data 8)
                    (byte_of speed_data 16) (byte_of speed_data 24)) w)"

definition position_control ::
  "drc_constants \<Rightarrow> rmd_drc \<Rightarrow> float \<Rightarrow> float \<Rightarrow> world
     \<Rightarrow> unit result \<times> rmd_drc \<times> world" where
  "position_control K d p_angle p_rpm w =
     (let angle = fdiv (fmul p_angle (m_gear_ratio d)) deg_per_lsb in
      case bounds_check angle of
        Inl e \<Rightarrow> (Raised e, d, w)
      | Inr angle_data \<Rightarrow>
          (case rpm_to_drc_speed p_rpm (m_gear_ratio d) (dps_per_lsb_angle K) of
             Inl e \<Rightarrow> (Raised e, d, w)
           | Inr speed_data \<Rightarrow>
               send d (Payload (value_actuate position_2) 0x00
                         (byte_of speed_data 0) (byte_of speed_data 8)
                         (byte_of angle_data 0) (byte_of angle_data 8)
                         (byte_of angle_data 16) (byte_of angle_data 24)) w))"

definition feedback_request ::
  "rmd_drc \<Rightarrow> read \<Rightarrow> world \<Rightarrow> unit result \<times> rmd_drc \<times> world" where
  "feedback_request d p_command w =
     send d (Payload (value_read p_command) 0x00 0x00 0x00 0x00 0x00 0x00 0x00) w"

definition system_control ::
  "rmd_drc \<Rightarrow> system \<Rightarrow> world \<Rightarrow> unit result \<times> rmd_drc \<times> world" where
  "system_control d p_system_command w =
     send d (Payload (value_system p_system_command) 0x00 0x00 0x00 0x00 0x00 0x00 0x00) w"

section \<open>Construction\<close>

text \<open>
  The constructor zeroes the feedback, registers the object as the handler for its
  device ID (from then on the frames of \<open>polls\<close> reach \<open>operator_call\<close>), and sends
  \<^verbatim>\<open>system::off\<close> and then \<^verbatim>\<open>system::running\<close>. An exception leaving either call leaves
  the constructor: there is no object then.
\<close>

definition rmd_drc_ctor :: "float \<Rightarrow> u32 \<Rightarrow> nat \<Rightarrow> world \<Rightarrow> rmd_drc result \<times> world" where
  "rmd_drc_ctor p_gear_ratio p_device_id p_max_response_time w =
     (let d0 = \<lparr>m_feedback = feedback_init, m_gear_ratio = p_gear_ratio,
                m_device_id = p_device_id, m_max_response_time = p_max_response_time\<rparr>
      in case system_control d0 off w of
           (Raised e, d1, w1) \<Rightarrow> (Raised e, w1)
         | (Pending, d1, w1) \<Rightarrow> (Pending, w1)
         | (Returned u, d1, w1) \<Rightarrow>
             (case system_control d1 running w1 of
                (Raised e, d2, w2) \<Rightarrow> (Raised e, w2)
              | (Pending, d2, w2) \<Rightarrow> (Pending, w2)
              | (Returned v, d2, w2) \<Rightarrow> (Returned d2, w2)))"

section \<open>What the wire format says, in integers\<close>

text \<open>
  The readings the protocol description gives to the bytes of a frame, written without
  reference to the code: a byte as a signed 8-bit number, two bytes as a signed
  little-endian 16-bit number, seven bytes as a signed little-endian 56-bit number, and
  byte \<open>i\<close> of the little-endian two's-complement encoding of an integer.
\<close>

definition signed8 :: "u8 \<Rightarrow> int" where
  "signed8 b = (if uint b < 128 then uint b else uint b - 256)"

definition le_signed16 :: "u8 \<Rightarrow> u8 \<Rightarrow> int" where
  "le_signed16 lo hi =
     (let u = uint lo + 256 * uint hi in if u < 32768 then u else u - 65536)"

definition le_signed56 :: "payload_t \<Rightarrow> int" where
  "le_signed56 data =
     (let u = uint (p1 data) + 2 ^ 8 * uint (p2 data) + 2 ^ 16 * uint (p3 data)
            + 2 ^ 24 * uint (p4 data) + 2 ^ 32 * uint (p5 data) + 2 ^ 40 * uint (p6 data)
            + 2 ^ 48 * uint (p7 data)
      in if u < 2 ^ 55 then u else u - 2 ^ 56)"

definition le_byte :: "int \<Rightarrow> nat \<Rightarrow> u8" where
  "le_byte n i = word_of_int ((n div 256 ^ i) mod 256)"

text \<open>Whether a converted value fits the signed 32-bit range, and the integer it rounds to.\<close>

definition fits_int32 :: "float \<Rightarrow> bool" where
  "fits_int32 x =
     (case x of Finite q \<Rightarrow> - (2 ^ 31) \<le> round q \<and> round q \<le> 2 ^ 31 - 1
      | Inf s \<Rightarrow> False | NaN \<Rightarrow> False)"

definition rounded :: "float \<Rightarrow> int" where
  "rounded x = (case x of Finite q \<Rightarrow> round q | Inf s \<Rightarrow> 0 | NaN \<Rightarrow> 0)"

text \<open>
  The two conversions of the commands, as the code computes them: the speed in
  revolutions per minute times the gear ratio, times the number of degrees per second in
  one revolution per minute, divided by the LSB scale; and the angle in degrees times
  the gear ratio, divided by \<^verbatim>\<open>0.01f\<close>.
\<close>

definition speed_in_lsb :: "float \<Rightarrow> float \<Rightarrow> float \<Rightarrow> float" where
  "speed_in_lsb p_rpm gear lsb = fdiv (fmul (fmul p_rpm gear) dps_per_rpm) lsb"

definition angle_in_lsb :: "float \<Rightarrow> float \<Rightarrow> float" where
  "angle_in_lsb p_angle gear = fdiv (fmul p_angle gear) deg_per_lsb"

text \<open>
  The velocity conversion with its constants written out: the speed times the gear
  ratio, times 6, divided by \<^verbatim>\<open>0.01f\<close>. And the conversion in the order of the spec's
  sentence, for a given LSB scale: the speed converted to degrees per second, times the
  gear ratio, divided by the scale.
\<close>

definition velocity_lsb :: "float \<Rightarrow> float \<Rightarrow> float" where
  "velocity_lsb p_rpm gear = fdiv (fmul (fmul p_rpm gear) (Finite 6)) (round32 (1 / 100))"

definition claimed_velocity_lsb :: "float \<Rightarrow> float \<Rightarrow> float \<Rightarrow> float" where
  "claimed_velocity_lsb p_rpm gear lsb = fdiv (fmul (fmul p_rpm (Finite 6)) gear) lsb"

text \<open>
  A stretch of the polling script in which nothing arrives and the timeout has not
  run out, and a script in which nothing ever arrives.
\<close>

definition quiet :: "nat \<Rightarrow> (can_message list \<times> nat) list \<Rightarrow> bool" where
  "quiet duration ps = list_all (\<lambda>p. fst p = [] \<and> snd p < duration) ps"

definition silent :: "(can_message list \<times> nat) list \<Rightarrow> bool" where
  "silent ps = list_all (\<lambda>p. fst p = []) ps"

section \<open>Concrete drivers, frames and environments\<close>

definition example_driver :: rmd_drc where
  "example_driver = \<lparr>m_feedback = feedback_init, m_gear_ratio = Finite 6,
     m_device_id = 0x140, m_max_response_time = 10\<rparr>"

text \<open>
  Two choices of the constants of \<^verbatim>\<open>drc_constants.hpp\<close>. The first has one degree per
  second per LSB for both scales. The second has \<^verbatim>\<open>0.01f\<close> for \<open>dps_per_lsb_speed\<close>
  and one for \<open>dps_per_lsb_angle\<close>: it is the choice under which the driver sends the
  frames the repository's tests list for the velocity and position commands
  (\<open>test_vectors_velocity\<close>, \<open>test_vectors_position\<close>) and under which \<open>angle\<close> turns
  a raw count of 100 into one degree, as the header's 0.01 degrees per LSB has it
  (\<open>angle_examples\<close>).
\<close>

definition unit_constants :: drc_constants where
  "unit_constants = \<lparr>dps_per_lsb_speed = Finite 1,
     dps_per_lsb_angle = Finite 1, over_temperature_protection_tripped_mask = 0x08\<rparr>"

definition test_constants :: drc_constants where
  "test_constants = \<lparr>dps_per_lsb_speed = round32 (1 / 100),
     dps_per_lsb_angle = Finite 1, over_temperature_protection_tripped_mask = 0x08\<rparr>"

definition status_2_frame :: can_message where
  "status_2_frame = message 0x140 (Payload 0x9C 0x11 0x22 0x33 0x44 0x55 0x66 0x77)"

definition minus_one_angle_frame :: can_message where
  "minus_one_angle_frame = message 0x140 (Payload 0x92 0xFF 0xFF 0xFF 0xFF 0xFF 0xFF 0xFF)"

definition short_frame :: can_message where
  "short_frame = \<lparr>id_msg = 0x140, length_msg = 3,
     payload = Payload 0x9C 0x11 0x22 0x33 0x44 0x55 0x66 0x77\<rparr>"

definition foreign_frame :: can_message where
  "foreign_frame = message 0x141 (Payload 0x9C 0x11 0x22 0x33 0x44 0x55 0x66 0x77)"

definition unknown_frame :: can_message where
  "unknown_frame = message 0x140 (Payload 0x30 0x11 0x22 0x33 0x44 0x55 0x66 0x77)"

definition busy_driver :: rmd_drc where
  "busy_driver = operator_call example_driver status_2_frame"

text \<open>The world after one call of \<^verbatim>\<open>bus().send\<close>, and the two frames of construction.\<close>

definition off_frame :: "u32 \<Rightarrow> can_message" where
  "off_frame i = message i (Payload 0x80 0 0 0 0 0 0 0)"

definition running_frame :: "u32 \<Rightarrow> can_message" where
  "running_frame i = message i (Payload 0x88 0 0 0 0 0 0 0)"

definition transmitted :: "world \<Rightarrow> can_message \<Rightarrow> world" where
  "transmitted w m = w\<lparr>tx_log := tx_log w @ [m], tx_faults := tl (tx_faults w)\<rparr>"

text \<open>
  Environments: one whose transport fails the first send, one in which a reply arrives
  at the second poll, one in which nothing arrives and the timeout runs out at the
  second poll, and one that answers each of two commands at once.
\<close>

definition faulty_world :: world where
  "faulty_world = \<lparr>tx_log = [], tx_faults = [True], polls = [([status_2_frame], 0)]\<rparr>"

definition replying_world :: world where
  "replying_world = \<lparr>tx_log = [], tx_faults = [],
     polls = [([], 3), ([status_2_frame], 5), ([], 7), ([unknown_frame], 8)]\<rparr>"

definition mute_world :: world where
  "mute_world = \<lparr>tx_log = [], tx_faults = [False], polls = [([], 3), ([], 10), ([], 12)]\<rparr>"

definition acknowledging_world :: world where
  "acknowledging_world = \<lparr>tx_log = [], tx_faults = [],
     polls = [([status_2_frame], 0), ([status_2_frame], 0)]\<rparr>"

section \<open>Signed readings of words\<close>

lemma wrap_signed:
  fixes k :: int
  assumes "0 \<le> k" "k < 2 * h" "0 < h"
  shows "(k + h) mod (2 * h) - h = (if k < h then k else k - 2 * h)"
proof (cases "k < h")
  case True
  then have "(k + h) mod (2 * h) = k + h"
    using assms by simp
  with True show ?thesis by simp
next
  case False
  have "(k + h) mod (2 * h) = ((k - h) + 2 * h) mod (2 * h)"
    by (simp add: algebra_simps)
  also have "\<dots> = (k - h) mod (2 * h)"
    by (simp only: mod_add_self2)
  also have "\<dots> = k - h"
    using False assms by simp
  finally show ?thesis using False by simp
qed

lemma sint_cases:
  fixes w :: "'a::len word"
  shows "sint w = (if uint w < 2 ^ (LENGTH('a) - 1) then uint w else uint w - 2 ^ LENGTH('a))"
proof -
  define h :: int where "h = 2 ^ (LENGTH('a) - 1)"
  have two: "(2::int) ^ LENGTH('a) = 2 * h"
    unfolding h_def by (cases "LENGTH('a)") simp_all
  have b: "0 \<le> uint w" "uint w < 2 * h" "0 < h"
    using uint_lt2p [of w] two by (simp_all add: h_def)
  have "sint w = (uint w + 2 ^ (LENGTH('a) - 1)) mod 2 ^ LENGTH('a) - 2 ^ (LENGTH('a) - 1)"
    by (simp add: sint_uint signed_take_bit_eq_take_bit_shift take_bit_eq_mod)
  then have "sint w = (uint w + h) mod (2 * h) - h"
    by (simp only: two flip: h_def)
  also have "\<dots> = (if uint w < h then uint w else uint w - 2 * h)"
    using b by (rule wrap_signed)
  finally show ?thesis by (simp add: two h_def)
qed

lemma int16_of_cat: "int16_of hi lo = word_cat hi lo"
  unfolding int16_of_def
  by (rule bit_word_eqI) (auto simp add: bit_simps dest: bit_imp_le_length)

lemma uint_ucast_u8_16: "uint (ucast (b :: u8) :: i16) = uint b"
  by (simp add: uint_up_ucast is_up)

lemma uint_int16_of: "uint (int16_of hi lo) = uint lo + 256 * uint hi"
proof -
  have hi: "uint hi < 256" and lo: "uint lo < 256"
    using uint_lt2p [of hi] uint_lt2p [of lo] by simp_all
  have "uint (int16_of hi lo) = (uint hi * 256 mod 65536 + uint lo) mod 65536"
    by (simp add: int16_of_cat word_cat_eq push_bit_eq_mult uint_word_ariths
        uint_ucast_u8_16 mod_simps)
  also have "\<dots> = uint lo + 256 * uint hi"
    using hi lo by simp
  finally show ?thesis .
qed

lemma sint_int16_of: "sint (int16_of hi lo) = le_signed16 lo hi"
  using sint_cases [of "int16_of hi lo"] by (simp add: uint_int16_of le_signed16_def Let_def)

lemma sint_signed8: "sint (b :: u8) = signed8 b"
  using sint_cases [of b] by (simp add: signed8_def)

section \<open>Properties of the frame handler\<close>

lemma operator_call_message_number_aux:
  "message_number (m_feedback (operator_call d m)) = message_number (m_feedback d) + 1"
  by (simp add: operator_call_def Let_def)

text \<open>
  C7. Every inbound frame handed to the handler raises \<open>message_number\<close> by exactly
  one, whatever its length, its ID or its leading byte: the increment comes before any
  check. The counter is an unsigned 32-bit number, so the step from its largest value
  leads to 0.
\<close>

theorem message_number_increments:
  "message_number (feedback (operator_call d m)) = message_number (feedback d) + 1
   \<and> unat (message_number (feedback (operator_call d m)))
       = (unat (message_number (feedback d)) + 1) mod 2 ^ 32"
  by (simp add: feedback_def operator_call_message_number_aux unat_word_ariths)

theorem message_number_increments_witness:
  "message_number (feedback (operator_call example_driver short_frame)) = 1
   \<and> message_number (feedback (operator_call example_driver foreign_frame)) = 1
   \<and> message_number (feedback (operator_call example_driver unknown_frame)) = 1"
  using message_number_increments [of example_driver short_frame]
    message_number_increments [of example_driver foreign_frame]
    message_number_increments [of example_driver unknown_frame]
  by (simp add: feedback_def example_driver_def feedback_init_def)

text \<open>
  C4. A frame of length 8 with the driver's ID whose leading byte is 0x9C (status 2),
  0xA2 (the echoed speed command) or 0xA4 (the echoed position command) sets the
  temperature to byte 1 read as a signed 8-bit number, and the current, the speed and
  the encoder count to bytes 2-3, 4-5 and 6-7 read as signed little-endian 16-bit
  numbers. The fields this kind of frame does not carry keep their values.
\<close>

theorem status_2_decoding:
  assumes "length_msg m = 8" and "id_msg m = m_device_id d"
    and "p0 (payload m) = 0x9C \<or> p0 (payload m) = 0xA2 \<or> p0 (payload m) = 0xA4"
  shows "sint (raw_motor_temperature (feedback (operator_call d m))) = signed8 (p1 (payload m))
    \<and> sint (raw_current (feedback (operator_call d m)))
        = le_signed16 (p2 (payload m)) (p3 (payload m))
    \<and> sint (raw_speed (feedback (operator_call d m)))
        = le_signed16 (p4 (payload m)) (p5 (payload m))
    \<and> sint (encoder (feedback (operator_call d m)))
        = le_signed16 (p6 (payload m)) (p7 (payload m))
    \<and> raw_motor_temperature (feedback (operator_call d m)) = p1 (payload m)
    \<and> raw_volts (feedback (operator_call d m)) = raw_volts (feedback d)
    \<and> raw_error_state (feedback (operator_call d m)) = raw_error_state (feedback d)
    \<and> raw_multi_turn_angle (feedback (operator_call d m)) = raw_multi_turn_angle (feedback d)"
  using assms
  by (auto simp add: operator_call_def feedback_def Let_def sint_int16_of sint_signed8)

text \<open>The frame 9C 11 22 33 44 55 66 77 gives 0x11, 0x3322, 0x5544 and 0x7766.\<close>

theorem status_2_decoding_witness:
  "sint (raw_motor_temperature (feedback (operator_call example_driver status_2_frame))) = 0x11
   \<and> sint (raw_current (feedback (operator_call example_driver status_2_frame))) = 0x3322
   \<and> sint (raw_speed (feedback (operator_call example_driver status_2_frame))) = 0x5544
   \<and> sint (encoder (feedback (operator_call example_driver status_2_frame))) = 0x7766"
  using status_2_decoding [of status_2_frame example_driver]
  by (simp add: status_2_frame_def example_driver_def message_def signed8_def le_signed16_def)

text \<open>
  C8. A frame whose length is not 8, or whose ID is not the driver's, or whose leading
  byte is none of the five the handler knows, changes no field of the feedback but
  \<open>message_number\<close>.
\<close>

theorem rejected_frame_keeps_telemetry:
  assumes "length_msg m \<noteq> 8 \<or> id_msg m \<noteq> m_device_id d
    \<or> (p0 (payload m) \<noteq> 0x9C \<and> p0 (payload m) \<noteq> 0xA2 \<and> p0 (payload m) \<noteq> 0xA4
        \<and> p0 (payload m) \<noteq> 0x9A \<and> p0 (payload m) \<noteq> 0x92)"
  shows "raw_multi_turn_angle (feedback (operator_call d m)) = raw_multi_turn_angle (feedback d)
    \<and> raw_current (feedback (operator_call d m)) = raw_current (feedback d)
    \<and> raw_speed (feedback (operator_call d m)) = raw_speed (feedback d)
    \<and> raw_volts (feedback (operator_call d m)) = raw_volts (feedback d)
    \<and> encoder (feedback (operator_call d m)) = encoder (feedback d)
    \<and> raw_motor_temperature (feedback (operator_call d m)) = raw_motor_temperature (feedback d)
    \<and> raw_error_state (feedback (operator_call d m)) = raw_error_state (feedback d)
    \<and> operator_call d m
        = d\<lparr>m_feedback := (m_feedback d)\<lparr>message_number := message_number (m_feedback d) + 1\<rparr>\<rparr>"
  using assms
  by (auto simp add: operator_call_def feedback_def Let_def)

lemma busy_driver_feedback:
  "feedback busy_driver = \<lparr>message_number = 1, raw_multi_turn_angle = 0, raw_current = 0x3322,
     raw_speed = 0x5544, raw_volts = 0, encoder = 0x7766, raw_motor_temperature = 0x11,
     raw_error_state = 0\<rparr>"
  by (simp add: busy_driver_def operator_call_def feedback_def Let_def example_driver_def
      status_2_frame_def message_def feedback_init_def int16_of_def)

lemma busy_driver_id: "m_device_id busy_driver = 0x140"
  by (simp add: busy_driver_def operator_call_def Let_def example_driver_def)

theorem rejected_frame_keeps_telemetry_witness:
  "raw_current (feedback (operator_call busy_driver short_frame)) = 0x3322
   \<and> raw_speed (feedback (operator_call busy_driver foreign_frame)) = 0x5544
   \<and> encoder (feedback (operator_call busy_driver unknown_frame)) = 0x7766
   \<and> raw_motor_temperature (feedback (operator_call busy_driver unknown_frame)) = 0x11"
  using rejected_frame_keeps_telemetry [of short_frame busy_driver]
    rejected_frame_keeps_telemetry [of foreign_frame busy_driver]
    rejected_frame_keeps_telemetry [of unknown_frame busy_driver]
  by (auto simp add: busy_driver_feedback busy_driver_id short_frame_def foreign_frame_def
      unknown_frame_def message_def)

text \<open>
  C9. Whatever the error byte holds, the two trip accessors agree: both test it against
  the same mask, \<^verbatim>\<open>over_temperature_protection_tripped_mask\<close>.
\<close>

theorem trip_flags_agree:
  "over_voltage_protection_tripped K f = over_temperature_protection_tripped K f"
  by (simp add: over_voltage_protection_tripped_def over_temperature_protection_tripped_def)

theorem trip_flags_agree_witness:
  "over_voltage_protection_tripped test_constants (feedback_init\<lparr>raw_error_state := 0x08\<rparr>)
     = over_temperature_protection_tripped test_constants
         (feedback_init\<lparr>raw_error_state := 0x08\<rparr>)
   \<and> over_voltage_protection_tripped test_constants (feedback_init\<lparr>raw_error_state := 0x01\<rparr>)
     = over_temperature_protection_tripped test_constants
         (feedback_init\<lparr>raw_error_state := 0x01\<rparr>)"
  using trip_flags_agree [of test_constants "feedback_init\<lparr>raw_error_state := 0x08\<rparr>"]
    trip_flags_agree [of test_constants "feedback_init\<lparr>raw_error_state := 0x01\<rparr>"]
  by simp

lemma multi_turn_of_range: "0 \<le> sint (multi_turn_of data) \<and> sint (multi_turn_of data) < 2 ^ 32"
proof -
  have "\<And>x :: u32. uint (ucast x :: i64) = uint x"
    by (simp add: uint_up_ucast is_up)
  then obtain x :: u32 where x: "uint (multi_turn_of data) = uint x"
    unfolding multi_turn_of_def by blast
  have "uint x < 2 ^ 32"
    using uint_lt2p [of x] by simp
  with x show ?thesis
    using sint_cases [of "multi_turn_of data"] by simp
qed

text \<open>
  C5. On the wire, bytes 1 to 7 of a multi-turn angle frame are a signed little-endian
  56-bit number, to be sign-extended into the 64-bit field. The handler stitches them
  in the 32-bit unsigned accumulator of \<^verbatim>\<open>hal::bit_value(0U)\<close> and converts the result to the
  signed 64-bit field, so the stored value is never negative (\<open>multi_turn_of_range\<close>).
  For the frame 92 FF FF FF FF FF FF FF, whose bytes 1 to 7 read as a signed
  little-endian 56-bit number are -1, the handler stores 4294967295.
\<close>

theorem multi_turn_angle_of_minus_one:
  "sint (raw_multi_turn_angle (feedback (operator_call example_driver minus_one_angle_frame)))
     = 4294967295
   \<and> le_signed56 (payload minus_one_angle_frame) = - 1"
  by (simp add: operator_call_def feedback_def Let_def minus_one_angle_frame_def
      example_driver_def message_def le_signed56_def
      multi_turn_of_def insert_field_def byte_m_def bit_mask_value_def mask_eq_exp_minus_1)

theorem multi_turn_angle_of_minus_one_witness:
  "0 \<le> sint (raw_multi_turn_angle
       (feedback (operator_call example_driver minus_one_angle_frame)))
   \<and> sint (raw_multi_turn_angle
       (feedback (operator_call example_driver minus_one_angle_frame)))
     \<noteq> le_signed56 (payload minus_one_angle_frame)"
  using multi_turn_angle_of_minus_one by simp

lemma busy_driver_max_response_time: "m_max_response_time busy_driver = 10"
  by (simp add: busy_driver_def operator_call_def Let_def example_driver_def)

section \<open>Properties of send\<close>

lemma operator_call_identity:
  "m_device_id (operator_call d m) = m_device_id d
   \<and> m_max_response_time (operator_call d m) = m_max_response_time d
   \<and> m_gear_ratio (operator_call d m) = m_gear_ratio d"
  by (simp add: operator_call_def Let_def)

lemma foldl_operator_call_identity:
  "m_device_id (foldl operator_call d ms) = m_device_id d
   \<and> m_max_response_time (foldl operator_call d ms) = m_max_response_time d
   \<and> m_gear_ratio (foldl operator_call d ms) = m_gear_ratio d"
  by (induction ms arbitrary: d) (simp_all add: operator_call_identity)

lemma foldl_operator_call_message_number:
  "message_number (feedback (foldl operator_call d ms))
     = message_number (feedback d) + of_nat (length ms)"
  by (induction ms arbitrary: d)
    (simp_all add: feedback_def operator_call_message_number_aux)

lemma arrivals_change_message_number:
  assumes "ms \<noteq> []" and "length ms < 2 ^ 32"
  shows "message_number (feedback (foldl operator_call d ms)) \<noteq> message_number (feedback d)"
proof -
  have "(of_nat (length ms) :: u32) \<noteq> 0"
    using assms by (simp add: of_nat_0_eq_iff unat_of_nat word_eq_iff_unsigned [where ?'a = nat] take_bit_nat_eq_self)
  then show ?thesis
    by (simp add: foldl_operator_call_message_number)
qed

lemma wait_loop_quiet:
  assumes "quiet (m_max_response_time d) pre"
  shows "wait_loop (message_number (feedback d)) d (pre @ rest)
     = wait_loop (message_number (feedback d)) d rest"
  using assms
  by (induction pre) (auto simp add: quiet_def timeout_expired_def)

lemma wait_loop_silent:
  "silent ps \<Longrightarrow> fst (snd (wait_loop n d ps)) = d"
  by (induction ps) (auto simp add: silent_def Let_def)

lemma wait_loop_result:
  "fst (wait_loop n d ps) \<noteq> Raised bounds_error \<and> fst (wait_loop n d ps) \<noteq> Raised io_error"
  by (induction n d ps rule: wait_loop.induct) (simp_all add: Let_def)

lemma wait_loop_identity:
  "m_device_id (fst (snd (wait_loop n d ps))) = m_device_id d"
  by (induction ps arbitrary: d) (auto simp add: Let_def foldl_operator_call_identity)

lemma send_tx_log:
  "tx_log (snd (snd (send d p w))) = tx_log w @ [message (m_device_id d) p]"
  by (simp add: send_def bus_send_def Let_def split: prod.splits)

lemma send_identity:
  "m_device_id (fst (snd (send d p w))) = m_device_id d"
  using wait_loop_identity [of "message_number (feedback d)" d "polls w"]
  by (auto simp add: send_def bus_send_def Let_def split: prod.splits)

lemma send_never_bounds_error:
  "fst (send d p w) \<noteq> Raised bounds_error"
  using wait_loop_result [of "message_number (feedback d)" d "polls w"]
  by (auto simp add: send_def bus_send_def Let_def split: prod.splits)

lemma send_fault:
  "tx_fails w \<Longrightarrow> send d p w = (Raised io_error, d, transmitted w (message (m_device_id d) p))"
  by (simp add: send_def bus_send_def transmitted_def)

lemma send_reply:
  assumes "\<not> tx_fails w" and "polls w = pre @ (inbound, t) # rest"
    and "quiet (m_max_response_time d) pre"
    and "message_number (feedback (foldl operator_call d inbound)) \<noteq> message_number (feedback d)"
  shows "send d p w = (Returned (), foldl operator_call d inbound,
           (transmitted w (message (m_device_id d) p))\<lparr>polls := rest\<rparr>)"
  using assms
  by (simp add: send_def bus_send_def transmitted_def wait_loop_quiet Let_def)

lemma send_timeout:
  assumes "\<not> tx_fails w" and "polls w = pre @ ([], t) # rest"
    and "quiet (m_max_response_time d) pre" and "m_max_response_time d \<le> t"
  shows "send d p w = (Raised timed_out, d,
           (transmitted w (message (m_device_id d) p))\<lparr>polls := rest\<rparr>)"
  using assms
  by (simp add: send_def bus_send_def transmitted_def wait_loop_quiet Let_def timeout_expired_def)

lemma send_silent:
  "silent (polls w) \<Longrightarrow> fst (snd (send d p w)) = d"
  using wait_loop_silent [of "polls w" "message_number (feedback d)" d]
  by (auto simp add: send_def bus_send_def Let_def split: prod.splits)

lemma send_first_poll:
  assumes "\<not> tx_fails w" and "polls w = (inbound, t) # rest"
    and "inbound \<noteq> []" and "length inbound < 2 ^ 32"
  shows "send d p w = (Returned (), foldl operator_call d inbound,
           (transmitted w (message (m_device_id d) p))\<lparr>polls := rest\<rparr>)"
  using send_reply [where pre = "[]", OF assms(1)] assms(2)
    arrivals_change_message_number [OF assms(3,4)]
  by (simp add: quiet_def)

text \<open>
  C6. \<open>send\<close> records \<open>message_number\<close>, hands the frame to the transport and polls.
  \<^item> If the transport's send fails, its error leaves \<open>send\<close> at once: the driver is
    unchanged and no entry of the polling script is consumed.
  \<^item> Otherwise, at the first poll at which the counter differs from the recorded value,
    \<open>send\<close> returns, with the frames delivered up to then decoded.
  \<^item> Otherwise, if nothing has arrived and the token finds the configured maximum
    response time elapsed, \<open>send\<close> raises \<open>timed_out\<close> and the driver, its feedback
    included, is as it was.
  \<^item> Whatever the outcome, a call during which no frame is delivered leaves the feedback
    unchanged.
\<close>

theorem send_and_wait:
  "(tx_fails w \<longrightarrow>
      send d p w = (Raised io_error, d, transmitted w (message (m_device_id d) p)))
   \<and> (\<not> tx_fails w \<and> polls w = pre @ (inbound, t) # rest
        \<and> quiet (m_max_response_time d) pre
        \<and> message_number (feedback (foldl operator_call d inbound)) \<noteq> message_number (feedback d)
      \<longrightarrow> send d p w = (Returned (), foldl operator_call d inbound,
             (transmitted w (message (m_device_id d) p))\<lparr>polls := rest\<rparr>))
   \<and> (\<not> tx_fails w \<and> polls w = pre @ ([], t) # rest
        \<and> quiet (m_max_response_time d) pre \<and> m_max_response_time d \<le> t
      \<longrightarrow> send d p w = (Raised timed_out, d,
             (transmitted w (message (m_device_id d) p))\<lparr>polls := rest\<rparr>))
   \<and> (silent (polls w) \<longrightarrow> feedback (fst (snd (send d p w))) = feedback d)"
  by (simp add: send_fault send_reply send_timeout send_silent)

theorem send_and_wait_witness:
  "send busy_driver (Payload 0x9C 0 0 0 0 0 0 0) faulty_world
     = (Raised io_error, busy_driver,
        \<lparr>tx_log = [message 0x140 (Payload 0x9C 0 0 0 0 0 0 0)], tx_faults = [],
         polls = [([status_2_frame], 0)]\<rparr>)
   \<and> send busy_driver (Payload 0x9C 0 0 0 0 0 0 0) replying_world
     = (Returned (), operator_call busy_driver status_2_frame,
        \<lparr>tx_log = [message 0x140 (Payload 0x9C 0 0 0 0 0 0 0)], tx_faults = [],
         polls = [([], 7), ([unknown_frame], 8)]\<rparr>)
   \<and> send busy_driver (Payload 0x9C 0 0 0 0 0 0 0) mute_world
     = (Raised timed_out, busy_driver,
        \<lparr>tx_log = [message 0x140 (Payload 0x9C 0 0 0 0 0 0 0)], tx_faults = [],
         polls = [([], 12)]\<rparr>)
   \<and> feedback (fst (snd (send busy_driver (Payload 0x9C 0 0 0 0 0 0 0) mute_world)))
     = feedback busy_driver"
  using send_and_wait [where w = faulty_world and d = busy_driver
      and p = "Payload 0x9C 0 0 0 0 0 0 0"]
    send_and_wait [where w = replying_world and d = busy_driver
      and p = "Payload 0x9C 0 0 0 0 0 0 0" and pre = "[([], 3)]" and inbound = "[status_2_frame]"
      and t = 5 and rest = "[([], 7), ([unknown_frame], 8)]"]
    send_and_wait [where w = mute_world and d = busy_driver
      and p = "Payload 0x9C 0 0 0 0 0 0 0" and pre = "[([], 3)]" and t = 10
      and rest = "[([], 12)]"]
  by (simp add: faulty_world_def replying_world_def mute_world_def tx_fails_def quiet_def
      silent_def transmitted_def busy_driver_id feedback_def operator_call_message_number_aux
      busy_driver_max_response_time)

section \<open>Properties of construction\<close>

lemma system_control_tx_log:
  "tx_log (snd (snd (system_control d c w)))
     = tx_log w @ [message (m_device_id d) (Payload (value_system c) 0 0 0 0 0 0 0)]"
  by (simp add: system_control_def send_tx_log)

lemma system_control_identity:
  "m_device_id (fst (snd (system_control d c w))) = m_device_id d"
  by (simp add: system_control_def send_identity)

lemma ctor_returned:
  assumes "fst (rmd_drc_ctor g i t w) = Returned d"
  shows "tx_log (snd (rmd_drc_ctor g i t w)) = tx_log w @ [off_frame i, running_frame i]"
proof -
  define d0 where "d0 = \<lparr>m_feedback = feedback_init, m_gear_ratio = g,
    m_device_id = i, m_max_response_time = t\<rparr>"
  obtain r1 d1 w1 where s1: "system_control d0 off w = (r1, d1, w1)"
    by (cases "system_control d0 off w") auto
  obtain r2 d2 w2 where s2: "system_control d1 running w1 = (r2, d2, w2)"
    by (cases "system_control d1 running w1") auto
  have l1: "tx_log w1 = tx_log w @ [off_frame i]"
    using system_control_tx_log [of d0 off w] s1 by (simp add: d0_def off_frame_def)
  have i1: "m_device_id d1 = i"
    using system_control_identity [of d0 off w] s1 by (simp add: d0_def)
  have l2: "tx_log w2 = tx_log w1 @ [running_frame i]"
    using system_control_tx_log [of d1 running w1] s2 i1 by (simp add: running_frame_def)
  have "r1 = Returned () \<and> r2 = Returned ()"
    using assms s1 s2 unfolding rmd_drc_ctor_def d0_def [symmetric] Let_def
    by (cases r1; cases r2) auto
  then have "snd (rmd_drc_ctor g i t w) = w2"
    using s1 s2 unfolding rmd_drc_ctor_def d0_def [symmetric] Let_def by simp
  with l1 l2 show ?thesis by simp
qed

lemma ctor_fault:
  assumes "tx_fails w"
  shows "rmd_drc_ctor g i t w = (Raised io_error, transmitted w (off_frame i))"
  using assms
  by (simp add: rmd_drc_ctor_def system_control_def send_fault off_frame_def Let_def)

lemma ctor_acknowledged:
  "rmd_drc_ctor (Finite 6) 0x140 10 acknowledging_world
     = (Returned (operator_call busy_driver status_2_frame),
        \<lparr>tx_log = [off_frame 0x140, running_frame 0x140], tx_faults = [], polls = []\<rparr>)"
  by (simp add: rmd_drc_ctor_def system_control_def send_def bus_send_def tx_fails_def
      acknowledging_world_def Let_def feedback_def operator_call_message_number_aux
      busy_driver_def example_driver_def off_frame_def running_frame_def
      operator_call_identity)

lemma ctor_acknowledged_general:
  assumes "\<not> tx_fails w" and "\<not> tx_fails (w\<lparr>tx_faults := tl (tx_faults w)\<rparr>)"
    and "polls w = (in1, t1) # (in2, t2) # rest"
    and "in1 \<noteq> []" and "length in1 < 2 ^ 32" and "in2 \<noteq> []" and "length in2 < 2 ^ 32"
  shows "fst (rmd_drc_ctor g i t w)
    = Returned (foldl operator_call (foldl operator_call
        \<lparr>m_feedback = feedback_init, m_gear_ratio = g, m_device_id = i,
         m_max_response_time = t\<rparr> in1) in2)"
proof -
  define d0 where "d0 = \<lparr>m_feedback = feedback_init, m_gear_ratio = g,
    m_device_id = i, m_max_response_time = t\<rparr>"
  define w1 where "w1 = (transmitted w (message (m_device_id d0)
    (Payload (value_system off) 0 0 0 0 0 0 0)))\<lparr>polls := (in2, t2) # rest\<rparr>"
  have s1: "system_control d0 off w = (Returned (), foldl operator_call d0 in1, w1)"
    unfolding system_control_def w1_def
    using assms(1,3,4,5) by (rule send_first_poll)
  have f1: "\<not> tx_fails w1"
    using assms(2) by (simp add: w1_def transmitted_def tx_fails_def)
  have p1: "polls w1 = (in2, t2) # rest"
    by (simp add: w1_def)
  have s2: "system_control (foldl operator_call d0 in1) running w1
      = (Returned (), foldl operator_call (foldl operator_call d0 in1) in2,
         (transmitted w1 (message (m_device_id (foldl operator_call d0 in1))
            (Payload (value_system running) 0 0 0 0 0 0 0)))\<lparr>polls := rest\<rparr>)"
    unfolding system_control_def
    using f1 p1 assms(6,7) by (rule send_first_poll)
  show ?thesis
    unfolding rmd_drc_ctor_def d0_def [symmetric] Let_def
    by (simp add: s1 s2)
qed

text \<open>
  C1, as the code has it. A construction that returns has handed exactly two frames to
  the transport, in this order: \<^verbatim>\<open>system::off\<close> (0x80) and \<^verbatim>\<open>system::running\<close> (0x88),
  each with bytes 1 to 7 zero. If the transport fails the first send, construction
  raises that error, there is no driver object, and the first frame is the only one
  handed over. And construction does return when neither send fails and each command
  is answered at its first poll.
\<close>

theorem construction_frames:
  "(fst (rmd_drc_ctor g i t w) = Returned d \<longrightarrow>
      tx_log (snd (rmd_drc_ctor g i t w)) = tx_log w @ [off_frame i, running_frame i])
   \<and> (tx_fails w \<longrightarrow>
      rmd_drc_ctor g i t w = (Raised io_error, transmitted w (off_frame i)))
   \<and> (\<not> tx_fails w \<and> \<not> tx_fails (w\<lparr>tx_faults := tl (tx_faults w)\<rparr>)
        \<and> polls w = (ina, ta) # (inb, tb) # rest
        \<and> ina \<noteq> [] \<and> length ina < 2 ^ 32 \<and> inb \<noteq> [] \<and> length inb < 2 ^ 32
      \<longrightarrow> fst (rmd_drc_ctor g i t w)
          = Returned (foldl operator_call (foldl operator_call
              \<lparr>m_feedback = feedback_init, m_gear_ratio = g, m_device_id = i,
               m_max_response_time = t\<rparr> ina) inb))"
  by (simp add: ctor_returned ctor_fault ctor_acknowledged_general)

theorem construction_frames_witness:
  "fst (rmd_drc_ctor (Finite 6) 0x140 10 acknowledging_world)
     = Returned (operator_call busy_driver status_2_frame)
   \<and> tx_log (snd (rmd_drc_ctor (Finite 6) 0x140 10 acknowledging_world))
     = [message 0x140 (Payload 0x80 0 0 0 0 0 0 0), message 0x140 (Payload 0x88 0 0 0 0 0 0 0)]
   \<and> rmd_drc_ctor (Finite 6) 0x140 10 faulty_world
     = (Raised io_error,
        \<lparr>tx_log = [message 0x140 (Payload 0x80 0 0 0 0 0 0 0)], tx_faults = [],
         polls = [([status_2_frame], 0)]\<rparr>)"
proof -
  have a: "fst (rmd_drc_ctor (Finite 6) 0x140 10 acknowledging_world)
      = Returned (operator_call busy_driver status_2_frame)"
    using construction_frames [where g = "Finite 6" and i = "0x140" and t = 10
        and w = acknowledging_world and ina = "[status_2_frame]" and ta = 0
        and inb = "[status_2_frame]" and tb = 0 and rest = "[]"]
    by (simp add: acknowledging_world_def tx_fails_def busy_driver_def example_driver_def)
  have f: "tx_fails faulty_world"
    by (simp add: tx_fails_def faulty_world_def)
  show ?thesis
    using a f
      construction_frames [where g = "Finite 6" and i = "0x140" and t = 10
        and w = acknowledging_world and d = "operator_call busy_driver status_2_frame"]
      construction_frames [where g = "Finite 6" and i = "0x140" and t = 10
        and w = faulty_world]
    by (simp add: acknowledging_world_def faulty_world_def transmitted_def off_frame_def
        running_frame_def)
qed

text \<open>
  The first frame of construction carries \<^verbatim>\<open>system::off\<close> (0x80), not \<^verbatim>\<open>system::stop\<close>
  (0x81).
\<close>

theorem construction_sends_off_not_stop:
  "fst (rmd_drc_ctor (Finite 6) 0x140 10 acknowledging_world)
     = Returned (operator_call busy_driver status_2_frame)
   \<and> map (p0 \<circ> payload) (tx_log (snd (rmd_drc_ctor (Finite 6) 0x140 10 acknowledging_world)))
     = [value_system off, value_system running]
   \<and> map (p0 \<circ> payload) (tx_log (snd (rmd_drc_ctor (Finite 6) 0x140 10 acknowledging_world)))
     \<noteq> [value_system stop, value_system running]"
  by (simp add: ctor_acknowledged off_frame_def running_frame_def message_def)

section \<open>Properties of the commands\<close>

lemma bit_byte_of:
  assumes "k + 8 \<le> 32"
  shows "bit (byte_of w k) j \<longleftrightarrow> j < 8 \<and> bit w (k + j)"
proof -
  have m: "(0xFF :: i32) = mask 8"
    by (simp add: mask_eq_exp_minus_1)
  show ?thesis
    using assms unfolding byte_of_def m
    by (auto simp add: bit_simps bit_signed_drop_bit_iff dest: bit_imp_le_length)
qed

lemma bit_le_byte:
  "bit (le_byte n i) j \<longleftrightarrow> j < 8 \<and> bit n (8 * i + j)"
proof -
  have "(n div 256 ^ i) mod 256 = take_bit 8 (drop_bit (8 * i) n)"
    by (simp add: take_bit_eq_mod drop_bit_eq_div power_mult)
  then show ?thesis
    by (auto simp add: le_byte_def bit_simps)
qed

lemma byte_of_word_of_int:
  assumes "i < 4"
  shows "byte_of (word_of_int n) (8 * i) = le_byte n i"
proof (rule bit_word_eqI)
  fix j
  assume "j < LENGTH(8)"
  then have j: "j < 8" by simp
  have k: "8 * i + 8 \<le> 32" using assms by simp
  have "8 * i + j < 32" using assms j by simp
  then show "bit (byte_of (word_of_int n) (8 * i)) j \<longleftrightarrow> bit (le_byte n i) j"
    using j by (simp add: bit_byte_of [OF k] bit_le_byte bit_simps)
qed

lemma bounds_check_fits:
  "bounds_check x = (if fits_int32 x then Inr (word_of_int (rounded x)) else Inl bounds_error)"
  by (cases x) (simp_all add: bounds_check_def fits_int32_def rounded_def)

lemma sint_rounded:
  "fits_int32 x \<Longrightarrow> sint (word_of_int (rounded x) :: i32) = rounded x"
  by (cases x) (simp_all add: fits_int32_def rounded_def sint_sbintrunc' signed_take_bit_int_eq_self)

lemma le_bytes_16:
  "uint (le_byte n 0) + 256 * uint (le_byte n 1) = n mod 65536"
proof -
  have "uint (le_byte n 0) = n mod 256"
    by (simp add: le_byte_def uint_word_of_int)
  moreover have "uint (le_byte n 1) = n div 256 mod 256"
    by (simp add: le_byte_def uint_word_of_int)
  moreover have "n mod 65536 = 256 * (n div 256 mod 256) + n mod 256"
    using zmod_zmult2_eq [of 256 n 256] by simp
  ultimately show ?thesis by simp
qed

lemma dps_per_rpm_eq: "dps_per_rpm = Finite 6"
  by code_simp

lemma deg_per_lsb_eq: "deg_per_lsb = Finite (5368709 / 536870912)"
  by code_simp

lemma speed_in_lsb_examples:
  "speed_in_lsb (Finite 10) (Finite 6) (Finite 1) = Finite 360"
  "speed_in_lsb (Finite 10) (Finite 6) (round32 (1 / 100)) = Finite 36000"
  "speed_in_lsb (Finite (- 10)) (Finite 6) (Finite 1) = Finite (- 360)"
  "speed_in_lsb (Finite 2000) (Finite 6) (Finite 1) = Finite 72000"
  "speed_in_lsb (Finite 1000000000) (Finite 6) (Finite 1) = Finite 35999997952"
  by code_simp+

lemma angle_in_lsb_example: "angle_in_lsb (Finite 45) (Finite 6) = Finite 27000"
  by code_simp

lemma example_gear: "m_gear_ratio example_driver = Finite 6"
  by (simp add: example_driver_def)

lemma rpm_to_drc_speed_fits:
  "rpm_to_drc_speed p_rpm gear lsb =
     (if fits_int32 (speed_in_lsb p_rpm gear lsb)
      then Inr (word_of_int (rounded (speed_in_lsb p_rpm gear lsb))) else Inl bounds_error)"
  by (simp add: rpm_to_drc_speed_def speed_in_lsb_def bounds_check_fits Let_def)

lemma velocity_control_fits:
  assumes "fits_int32 (speed_in_lsb p_rpm (m_gear_ratio d) (dps_per_lsb_speed K))"
  shows "tx_log (snd (snd (velocity_control K d p_rpm w)))
    = tx_log w @ [message (m_device_id d) (Payload 0xA2 0 0 0
        (le_byte (rounded (speed_in_lsb p_rpm (m_gear_ratio d) (dps_per_lsb_speed K))) 0)
        (le_byte (rounded (speed_in_lsb p_rpm (m_gear_ratio d) (dps_per_lsb_speed K))) 1)
        (le_byte (rounded (speed_in_lsb p_rpm (m_gear_ratio d) (dps_per_lsb_speed K))) 2)
        (le_byte (rounded (speed_in_lsb p_rpm (m_gear_ratio d) (dps_per_lsb_speed K))) 3))]"
  using assms byte_of_word_of_int [of 0] byte_of_word_of_int [of 1]
    byte_of_word_of_int [of 2] byte_of_word_of_int [of 3]
  by (simp add: velocity_control_def rpm_to_drc_speed_fits send_tx_log)

lemma velocity_control_overflow:
  assumes "\<not> fits_int32 (speed_in_lsb p_rpm (m_gear_ratio d) (dps_per_lsb_speed K))"
  shows "velocity_control K d p_rpm w = (Raised bounds_error, d, w)"
  using assms
  by (simp add: velocity_control_def rpm_to_drc_speed_fits)

lemma position_control_fits:
  assumes "fits_int32 (angle_in_lsb p_angle (m_gear_ratio d))"
    and "fits_int32 (speed_in_lsb p_rpm (m_gear_ratio d) (dps_per_lsb_angle K))"
  shows "tx_log (snd (snd (position_control K d p_angle p_rpm w)))
    = tx_log w @ [message (m_device_id d) (Payload 0xA4 0
        (le_byte (rounded (speed_in_lsb p_rpm (m_gear_ratio d) (dps_per_lsb_angle K))) 0)
        (le_byte (rounded (speed_in_lsb p_rpm (m_gear_ratio d) (dps_per_lsb_angle K))) 1)
        (le_byte (rounded (angle_in_lsb p_angle (m_gear_ratio d))) 0)
        (le_byte (rounded (angle_in_lsb p_angle (m_gear_ratio d))) 1)
        (le_byte (rounded (angle_in_lsb p_angle (m_gear_ratio d))) 2)
        (le_byte (rounded (angle_in_lsb p_angle (m_gear_ratio d))) 3))]"
    and "fst (position_control K d p_angle p_rpm w) \<noteq> Raised bounds_error"
  using assms byte_of_word_of_int [of 0] byte_of_word_of_int [of 1]
    byte_of_word_of_int [of 2] byte_of_word_of_int [of 3]
  by (simp_all add: position_control_def rpm_to_drc_speed_fits bounds_check_fits send_tx_log
      send_never_bounds_error angle_in_lsb_def [symmetric] Let_def)

lemma position_45_example:
  "tx_log (snd (snd (position_control test_constants example_driver (Finite 45) (Finite 10)
        acknowledging_world)))
     = [message 0x140 (Payload 0xA4 0x00 0x68 0x01 0x78 0x69 0x00 0x00)]"
  using position_control_fits(1) [where K = test_constants and d = example_driver
      and p_angle = "Finite 45" and p_rpm = "Finite 10" and w = acknowledging_world]
  by (simp add: example_gear test_constants_def speed_in_lsb_examples angle_in_lsb_example
      fits_int32_def rounded_def le_byte_def acknowledging_world_def example_driver_def)

lemma speed_in_lsb_centi: "speed_in_lsb p_rpm gear (round32 (1 / 100)) = velocity_lsb p_rpm gear"
  by (simp add: speed_in_lsb_def velocity_lsb_def dps_per_rpm_eq)

lemma velocity_lsb_examples:
  "velocity_lsb (Finite 0) (Finite 6) = Finite 0"
  "velocity_lsb (Finite 10) (Finite 6) = Finite 36000"
  "velocity_lsb (Finite 123) (Finite 6) = Finite 442800"
  "velocity_lsb (Finite 1024) (Finite 6) = Finite 3686400"
  "velocity_lsb (Finite (- 10)) (Finite 6) = Finite (- 36000)"
  "velocity_lsb (Finite 1000000000) (Finite 6) = Finite 3599999959040"
  by code_simp+

lemma angle_in_lsb_examples:
  "angle_in_lsb (Finite 0) (Finite 6) = Finite 0"
  "angle_in_lsb (Finite 90) (Finite 6) = Finite 54000"
  "angle_in_lsb (Finite 12) (Finite 6) = Finite 7200"
  "angle_in_lsb (Finite (- 15)) (Finite 6) = Finite (- 9000)"
  "angle_in_lsb (Finite (- 680)) (Finite 6) = Finite (- 408000)"
  by code_simp+

lemma order_examples:
  "velocity_lsb (Finite (2387067 / 4096)) (Finite 9) = Finite (6294025 / 2)"
  "claimed_velocity_lsb (Finite (2387067 / 4096)) (Finite 9) (round32 (1 / 100)) = Finite (12588049 / 4)"
  "claimed_velocity_lsb (Finite 10) (Finite 6) (Finite 1) = Finite 360"
  by code_simp+

lemma angle_examples:
  "angle test_constants (feedback_init\<lparr>raw_multi_turn_angle := 100\<rparr>) = Finite 1"
  "angle unit_constants (feedback_init\<lparr>raw_multi_turn_angle := 100\<rparr>) = Finite 100"
  by code_simp+

lemma test_speed: "dps_per_lsb_speed test_constants = round32 (1 / 100)"
  by (simp add: test_constants_def)

lemma test_vectors_velocity:
  "tx_log (snd (snd (velocity_control test_constants example_driver (Finite 0)
      acknowledging_world)))
     = [message 0x140 (Payload 0xA2 0x00 0x00 0x00 0x00 0x00 0x00 0x00)]"
  "tx_log (snd (snd (velocity_control test_constants example_driver (Finite 10)
      acknowledging_world)))
     = [message 0x140 (Payload 0xA2 0x00 0x00 0x00 0xA0 0x8C 0x00 0x00)]"
  "tx_log (snd (snd (velocity_control test_constants example_driver (Finite 123)
      acknowledging_world)))
     = [message 0x140 (Payload 0xA2 0x00 0x00 0x00 0xB0 0xC1 0x06 0x00)]"
  "tx_log (snd (snd (velocity_control test_constants example_driver (Finite 1024)
      acknowledging_world)))
     = [message 0x140 (Payload 0xA2 0x00 0x00 0x00 0x00 0x40 0x38 0x00)]"
  using velocity_control_fits [where K = test_constants and d = example_driver
      and w = acknowledging_world and p_rpm = "Finite 0"]
    velocity_control_fits [where K = test_constants and d = example_driver
      and w = acknowledging_world and p_rpm = "Finite 10"]
    velocity_control_fits [where K = test_constants and d = example_driver
      and w = acknowledging_world and p_rpm = "Finite 123"]
    velocity_control_fits [where K = test_constants and d = example_driver
      and w = acknowledging_world and p_rpm = "Finite 1024"]
  by (simp_all add: example_gear test_speed speed_in_lsb_centi velocity_lsb_examples
      fits_int32_def rounded_def le_byte_def acknowledging_world_def example_driver_def)

lemma test_vectors_position:
  "tx_log (snd (snd (position_control test_constants example_driver (Finite 0) (Finite 10)
      acknowledging_world)))
     = [message 0x140 (Payload 0xA4 0x00 0x68 0x01 0x00 0x00 0x00 0x00)]"
  "tx_log (snd (snd (position_control test_constants example_driver (Finite 90) (Finite 10)
      acknowledging_world)))
     = [message 0x140 (Payload 0xA4 0x00 0x68 0x01 0xF0 0xD2 0x00 0x00)]"
  "tx_log (snd (snd (position_control test_constants example_driver (Finite 12) (Finite 10)
      acknowledging_world)))
     = [message 0x140 (Payload 0xA4 0x00 0x68 0x01 0x20 0x1C 0x00 0x00)]"
  "tx_log (snd (snd (position_control test_constants example_driver (Finite (- 15)) (Finite 10)
      acknowledging_world)))
     = [message 0x140 (Payload 0xA4 0x00 0x68 0x01 0xD8 0xDC 0xFF 0xFF)]"
  "tx_log (snd (snd (position_control test_constants example_driver (Finite (- 680)) (Finite 10)
      acknowledging_world)))
     = [message 0x140 (Payload 0xA4 0x00 0x68 0x01 0x40 0xC6 0xF9 0xFF)]"
  using position_control_fits(1) [where K = test_constants and d = example_driver
      and w = acknowledging_world and p_rpm = "Finite 10" and p_angle = "Finite 0"]
    position_control_fits(1) [where K = test_constants and d = example_driver
      and w = acknowledging_world and p_rpm = "Finite 10" and p_angle = "Finite 90"]
    position_control_fits(1) [where K = test_constants and d = example_driver
      and w = acknowledging_world and p_rpm = "Finite 10" and p_angle = "Finite 12"]
    position_control_fits(1) [where K = test_constants and d = example_driver
      and w = acknowledging_world and p_rpm = "Finite 10" and p_angle = "Finite (- 15)"]
    position_control_fits(1) [where K = test_constants and d = example_driver
      and w = acknowledging_world and p_rpm = "Finite 10" and p_angle = "Finite (- 680)"]
  by (simp_all add: example_gear test_constants_def speed_in_lsb_examples angle_in_lsb_examples
      fits_int32_def rounded_def le_byte_def acknowledging_world_def example_driver_def)

text \<open>
  C2, as the code has it. The velocity command's LSB scale is \<open>dps_per_lsb_speed\<close>; with
  the value 0.01 degrees per second per LSB, \<open>velocity_control\<close> computes the speed in
  rpm times the gear ratio, times 6 (degrees per second in one rpm), divided by 0.01.
  If the result fits the signed 32-bit range, the frame handed to the transport is
  addressed to the device, has length 8, byte 0 equal to 0xA2, bytes 1 to 3 equal to 0,
  and bytes 4 to 7 equal to the little-endian two's-complement bytes of the rounded
  value. If it does not fit, the call raises the bounds error and hands nothing to the
  transport: driver and environment are as they were.
\<close>

theorem velocity_control_frame:
  "dps_per_lsb_speed K = round32 (1 / 100) \<longrightarrow>
     (fits_int32 (velocity_lsb p_rpm (m_gear_ratio d)) \<longrightarrow>
        tx_log (snd (snd (velocity_control K d p_rpm w)))
          = tx_log w @ [message (m_device_id d) (Payload 0xA2 0 0 0
              (le_byte (rounded (velocity_lsb p_rpm (m_gear_ratio d))) 0)
              (le_byte (rounded (velocity_lsb p_rpm (m_gear_ratio d))) 1)
              (le_byte (rounded (velocity_lsb p_rpm (m_gear_ratio d))) 2)
              (le_byte (rounded (velocity_lsb p_rpm (m_gear_ratio d))) 3))])
     \<and> (\<not> fits_int32 (velocity_lsb p_rpm (m_gear_ratio d)) \<longrightarrow>
        velocity_control K d p_rpm w = (Raised bounds_error, d, w))"
proof (intro impI conjI)
  assume k: "dps_per_lsb_speed K = round32 (1 / 100)"
  {
    assume "fits_int32 (velocity_lsb p_rpm (m_gear_ratio d))"
    then have "fits_int32 (speed_in_lsb p_rpm (m_gear_ratio d) (dps_per_lsb_speed K))"
      by (simp add: k speed_in_lsb_centi)
    from velocity_control_fits [OF this, of w]
    show "tx_log (snd (snd (velocity_control K d p_rpm w)))
          = tx_log w @ [message (m_device_id d) (Payload 0xA2 0 0 0
              (le_byte (rounded (velocity_lsb p_rpm (m_gear_ratio d))) 0)
              (le_byte (rounded (velocity_lsb p_rpm (m_gear_ratio d))) 1)
              (le_byte (rounded (velocity_lsb p_rpm (m_gear_ratio d))) 2)
              (le_byte (rounded (velocity_lsb p_rpm (m_gear_ratio d))) 3))]"
      by (simp add: k speed_in_lsb_centi)
  }
  {
    assume "\<not> fits_int32 (velocity_lsb p_rpm (m_gear_ratio d))"
    then have "\<not> fits_int32 (speed_in_lsb p_rpm (m_gear_ratio d) (dps_per_lsb_speed K))"
      by (simp add: k speed_in_lsb_centi)
    then show "velocity_control K d p_rpm w = (Raised bounds_error, d, w)"
      by (rule velocity_control_overflow)
  }
qed

theorem velocity_control_frame_witness:
  "tx_log (snd (snd (velocity_control test_constants example_driver (Finite 10)
      acknowledging_world)))
     = [message 0x140 (Payload 0xA2 0x00 0x00 0x00 0xA0 0x8C 0x00 0x00)]
   \<and> tx_log (snd (snd (velocity_control test_constants example_driver (Finite (- 10))
      acknowledging_world)))
     = [message 0x140 (Payload 0xA2 0x00 0x00 0x00 0x60 0x73 0xFF 0xFF)]
   \<and> velocity_control test_constants example_driver (Finite 1000000000) acknowledging_world
     = (Raised bounds_error, example_driver, acknowledging_world)"
  using velocity_control_frame [where K = test_constants and d = example_driver
      and p_rpm = "Finite 10" and w = acknowledging_world]
    velocity_control_frame [where K = test_constants and d = example_driver
      and p_rpm = "Finite (- 10)" and w = acknowledging_world]
    velocity_control_frame [where K = test_constants and d = example_driver
      and p_rpm = "Finite 1000000000" and w = acknowledging_world]
  by (simp add: example_gear test_speed velocity_lsb_examples
      fits_int32_def rounded_def le_byte_def acknowledging_world_def example_driver_def)

text \<open>
  The scale of the velocity command is not one degree per second per LSB. For 10 rpm at
  gear ratio 6 that scale gives 360, bytes 68 01 00 00, where the driver sends
  A0 8C 00 00 (36000), the frame the repository's test expects. The order of the
  multiplications matters as well: for the binary32 value nearest 582.78 rpm at gear
  ratio 9 the code's order gives 3147012.5 and the order of the spec's sentence
  3147012.25.
\<close>

theorem velocity_scale_is_not_one:
  "rounded (claimed_velocity_lsb (Finite 10) (Finite 6) (Finite 1)) = 360
   \<and> tx_log (snd (snd (velocity_control test_constants example_driver (Finite 10)
        acknowledging_world)))
     = [message 0x140 (Payload 0xA2 0x00 0x00 0x00 0xA0 0x8C 0x00 0x00)]
   \<and> tx_log (snd (snd (velocity_control test_constants example_driver (Finite 10)
        acknowledging_world)))
     \<noteq> [message 0x140 (Payload 0xA2 0x00 0x00 0x00
          (le_byte (rounded (claimed_velocity_lsb (Finite 10) (Finite 6) (Finite 1))) 0)
          (le_byte (rounded (claimed_velocity_lsb (Finite 10) (Finite 6) (Finite 1))) 1)
          (le_byte (rounded (claimed_velocity_lsb (Finite 10) (Finite 6) (Finite 1))) 2)
          (le_byte (rounded (claimed_velocity_lsb (Finite 10) (Finite 6) (Finite 1))) 3))]
   \<and> speed_in_lsb (Finite (2387067 / 4096)) (Finite 9) (round32 (1 / 100))
     = Finite (6294025 / 2)
   \<and> claimed_velocity_lsb (Finite (2387067 / 4096)) (Finite 9) (round32 (1 / 100))
     = Finite (12588049 / 4)"
  by (simp add: test_vectors_velocity order_examples speed_in_lsb_centi rounded_def le_byte_def
      message_def)

text \<open>
  C10. In \<open>position_control\<close> the speed cap is checked against the signed 32-bit range
  only, and bytes 2 and 3 of the frame are the two low bytes of the rounded value: read
  as a little-endian 16-bit number they are the value modulo 2^16. No value that passes
  the 32-bit check raises the bounds error. At 2000 rpm and gear ratio 6 the value is
  72000 and the field holds 6464.
\<close>

theorem position_control_speed_field:
  "fits_int32 (angle_in_lsb p_angle (m_gear_ratio d))
   \<and> fits_int32 (speed_in_lsb p_rpm (m_gear_ratio d) (dps_per_lsb_angle K)) \<longrightarrow>
     fst (position_control K d p_angle p_rpm w) \<noteq> Raised bounds_error
     \<and> tx_log (snd (snd (position_control K d p_angle p_rpm w)))
        = tx_log w @ [message (m_device_id d) (Payload 0xA4 0
            (le_byte (rounded (speed_in_lsb p_rpm (m_gear_ratio d) (dps_per_lsb_angle K))) 0)
            (le_byte (rounded (speed_in_lsb p_rpm (m_gear_ratio d) (dps_per_lsb_angle K))) 1)
            (le_byte (rounded (angle_in_lsb p_angle (m_gear_ratio d))) 0)
            (le_byte (rounded (angle_in_lsb p_angle (m_gear_ratio d))) 1)
            (le_byte (rounded (angle_in_lsb p_angle (m_gear_ratio d))) 2)
            (le_byte (rounded (angle_in_lsb p_angle (m_gear_ratio d))) 3))]
     \<and> uint (le_byte (rounded (speed_in_lsb p_rpm (m_gear_ratio d) (dps_per_lsb_angle K))) 0)
        + 256 * uint (le_byte (rounded (speed_in_lsb p_rpm (m_gear_ratio d) (dps_per_lsb_angle K))) 1)
        = rounded (speed_in_lsb p_rpm (m_gear_ratio d) (dps_per_lsb_angle K)) mod 65536"
  by (simp add: position_control_fits le_bytes_16 [simplified])

theorem position_control_speed_field_witness:
  "rounded (speed_in_lsb (Finite 2000) (m_gear_ratio example_driver) (dps_per_lsb_angle test_constants))
     = 72000
   \<and> fst (position_control test_constants example_driver (Finite 45) (Finite 2000) acknowledging_world)
     \<noteq> Raised bounds_error
   \<and> tx_log (snd (snd (position_control test_constants example_driver (Finite 45) (Finite 2000)
        acknowledging_world)))
     = [message 0x140 (Payload 0xA4 0x00 0x40 0x19 0x78 0x69 0x00 0x00)]
   \<and> uint (0x40 :: u8) + 256 * uint (0x19 :: u8) = 72000 mod 65536"
  using position_control_speed_field [where K = test_constants and d = example_driver
      and p_angle = "Finite 45" and p_rpm = "Finite 2000" and w = acknowledging_world]
  by (simp add: example_gear test_constants_def speed_in_lsb_examples angle_in_lsb_example
      fits_int32_def rounded_def le_byte_def acknowledging_world_def example_driver_def)

text \<open>
  C3, as the code has it. For a target of 45 degrees at gear ratio 6 the angle field is
  27000, that is 0x00006978, and bytes 4 to 7 of the frame are 78 69 00 00, whenever the
  speed cap passes its bounds check.
\<close>

theorem position_45_by_6_frame:
  "m_gear_ratio d = Finite 6
   \<and> fits_int32 (speed_in_lsb p_rpm (m_gear_ratio d) (dps_per_lsb_angle K)) \<longrightarrow>
     rounded (angle_in_lsb (Finite 45) (m_gear_ratio d)) = 0x00006978
     \<and> tx_log (snd (snd (position_control K d (Finite 45) p_rpm w)))
        = tx_log w @ [message (m_device_id d) (Payload 0xA4 0
            (le_byte (rounded (speed_in_lsb p_rpm (m_gear_ratio d) (dps_per_lsb_angle K))) 0)
            (le_byte (rounded (speed_in_lsb p_rpm (m_gear_ratio d) (dps_per_lsb_angle K))) 1)
            0x78 0x69 0x00 0x00)]"
proof (intro impI, elim conjE)
  assume g: "m_gear_ratio d = Finite 6"
    and s: "fits_int32 (speed_in_lsb p_rpm (m_gear_ratio d) (dps_per_lsb_angle K))"
  have a: "angle_in_lsb (Finite 45) (m_gear_ratio d) = Finite 27000"
    by (simp add: g angle_in_lsb_example)
  have f: "fits_int32 (angle_in_lsb (Finite 45) (m_gear_ratio d))"
    by (simp add: a fits_int32_def)
  show "rounded (angle_in_lsb (Finite 45) (m_gear_ratio d)) = 0x00006978
     \<and> tx_log (snd (snd (position_control K d (Finite 45) p_rpm w)))
        = tx_log w @ [message (m_device_id d) (Payload 0xA4 0
            (le_byte (rounded (speed_in_lsb p_rpm (m_gear_ratio d) (dps_per_lsb_angle K))) 0)
            (le_byte (rounded (speed_in_lsb p_rpm (m_gear_ratio d) (dps_per_lsb_angle K))) 1)
            0x78 0x69 0x00 0x00)]"
    using position_control_fits(1) [OF f s, of w]
    by (simp add: a rounded_def le_byte_def)
qed

theorem position_45_by_6_frame_witness:
  "rounded (angle_in_lsb (Finite 45) (Finite 6)) = 27000
   \<and> tx_log (snd (snd (position_control test_constants example_driver (Finite 45) (Finite 10)
        acknowledging_world)))
     = [message 0x140 (Payload 0xA4 0x00 0x68 0x01 0x78 0x69 0x00 0x00)]"
  using position_45_by_6_frame [where K = test_constants and d = example_driver
      and p_rpm = "Finite 10" and w = acknowledging_world]
  by (simp add: example_gear test_constants_def speed_in_lsb_examples
      fits_int32_def rounded_def le_byte_def acknowledging_world_def example_driver_def)

text \<open>
  The angle field for 45 degrees at gear ratio 6 is not 0x00016878, and bytes 4 to 7 are
  not 78 68 01 00: with a cap of 10 rpm the frame is A4 00 68 01 78 69 00 00.
\<close>

theorem position_45_by_6_is_not_16878:
  "rounded (angle_in_lsb (Finite 45) (Finite 6)) = 27000
   \<and> rounded (angle_in_lsb (Finite 45) (Finite 6)) \<noteq> 0x00016878
   \<and> tx_log (snd (snd (position_control test_constants example_driver (Finite 45) (Finite 10)
        acknowledging_world)))
     = [message 0x140 (Payload 0xA4 0x00 0x68 0x01 0x78 0x69 0x00 0x00)]
   \<and> tx_log (snd (snd (position_control test_constants example_driver (Finite 45) (Finite 10)
        acknowledging_world)))
     \<noteq> [message 0x140 (Payload 0xA4 0x00 0x68 0x01 0x78 0x68 0x01 0x00)]"
  by (simp add: position_45_example angle_in_lsb_example rounded_def message_def)

end
